theory Spec2Isabelle
  imports Main
begin

section \<open>Data model of the lane-defense simulation (game.ts, ants.ts)\<close>

text \<open>
  The TypeScript program is object-oriented: places and insects are heap objects that
  point at each other. The embedding keeps an explicit heap. References to \<open>Place\<close>
  objects are \<open>Loc n\<close> for the places made by the colony and the hive, and \<open>Stomach a\<close>
  for the private \<open>stomach\<close> place that the constructor of ant \<open>a\<close> creates (only an
  \<open>EaterAnt\<close> has one). Ants and bees are addressed by natural numbers.
  A field of the source that may hold \<open>undefined\<close> is an \<open>option\<close>.
  Logging (\<open>console.log\<close>, \<open>toString\<close>, the \<open>name\<close> fields) has no effect on the state
  and is left out.
\<close>

datatype place_ref = Loc nat | Stomach nat

datatype ant_kind = Grower | Thrower | Eater | Scuba | Guard

datatype insect = AntI nat | BeeI nat

datatype error = TypeError

text \<open>\<open>class Insect\<close>: \<open>armor\<close> and the back-reference \<open>place\<close>.\<close>

record Insect =
  armor :: int
  place :: "place_ref option"

text \<open>\<open>class Bee extends Insect\<close>.\<close>

record Bee = Insect +
  damage :: int
  status :: "string option"

text \<open>
  \<open>class Ant extends Insect\<close> and its five subclasses, told apart by \<open>kind\<close>
  (the \<open>instanceof\<close> tests of the source). \<open>turnsEating\<close> is the field of \<open>EaterAnt\<close>.
\<close>

record Ant = Insect +
  kind :: ant_kind
  foodCost :: int
  boost :: "string option"
  turnsEating :: nat

text \<open>\<open>class Place\<close>.\<close>

record Place =
  water :: bool
  exit :: "place_ref option"
  entrance :: "place_ref option"
  ant :: "nat option"
  guard :: "nat option"
  bees :: "nat list"

record heap =
  placeH :: "place_ref \<Rightarrow> Place"
  antH :: "nat \<Rightarrow> Ant"
  beeH :: "nat \<Rightarrow> Bee"
  nextAnt :: nat

text \<open>\<open>class AntColony\<close>; \<open>boosts\<close> is the dictionary of own entries.\<close>

record AntColony =
  food :: int
  places :: "place_ref list list"
  beeEntrances :: "place_ref list"
  queenPlace :: place_ref
  boosts :: "string \<rightharpoonup> int"

text \<open>\<open>class AntGame\<close>; \<open>hive\<close> is the \<open>Hive\<close> object, a \<open>Place\<close>.\<close>

record AntGame =
  turn :: nat
  colony :: AntColony
  hive :: place_ref

text \<open>
  What the JavaScript runtime, not this repository, fixes: the property names that every
  array (\<open>length\<close>, \<open>push\<close>, ...) and every plain object (\<open>toString\<close>, ...) carries besides
  its own entries. Reading such a name yields a number, a function or an object, never
  \<open>undefined\<close> or \<open>null\<close>. Reading a property of such a value in turn yields some
  value that is not a \<open>Place\<close>, or throws: \<open>member_read_throws k0 k1\<close> says that reading
  \<open>k1\<close> of the inherited member \<open>k0\<close> of an array throws (\<open>caller\<close> and \<open>arguments\<close> of a
  built-in function).
\<close>

record js_runtime =
  array_member :: "string \<Rightarrow> bool"
  object_member :: "string \<Rightarrow> bool"
  member_read_throws :: "string \<Rightarrow> string \<Rightarrow> bool"

section \<open>Place\<close>

definition setPlace_ant :: "nat \<Rightarrow> place_ref option \<Rightarrow> heap \<Rightarrow> heap" where
  "setPlace_ant a p h = h\<lparr>antH := (antH h)(a := (antH h a)\<lparr>place := p\<rparr>)\<rparr>"

definition setPlace_bee :: "nat \<Rightarrow> place_ref option \<Rightarrow> heap \<Rightarrow> heap" where
  "setPlace_bee b p h = h\<lparr>beeH := (beeH h)(b := (beeH h b)\<lparr>place := p\<rparr>)\<rparr>"

definition setStatus :: "nat \<Rightarrow> string option \<Rightarrow> heap \<Rightarrow> heap" where
  "setStatus b st h = h\<lparr>beeH := (beeH h)(b := (beeH h b)\<lparr>status := st\<rparr>)\<rparr>"

definition setBoost :: "nat \<Rightarrow> string \<Rightarrow> heap \<Rightarrow> heap" where
  "setBoost a bo h = h\<lparr>antH := (antH h)(a := (antH h a)\<lparr>boost := Some bo\<rparr>)\<rparr>"

definition setArmor :: "insect \<Rightarrow> int \<Rightarrow> heap \<Rightarrow> heap" where
  "setArmor i v h = (case i of
       AntI a \<Rightarrow> h\<lparr>antH := (antH h)(a := (antH h a)\<lparr>armor := v\<rparr>)\<rparr>
     | BeeI b \<Rightarrow> h\<lparr>beeH := (beeH h)(b := (beeH h b)\<lparr>armor := v\<rparr>)\<rparr>)"

definition getArmor :: "insect \<Rightarrow> heap \<Rightarrow> int" where
  "getArmor i h = (case i of AntI a \<Rightarrow> armor (antH h a) | BeeI b \<Rightarrow> armor (beeH h b))"

definition getPlace :: "insect \<Rightarrow> heap \<Rightarrow> place_ref option" where
  "getPlace i h = (case i of AntI a \<Rightarrow> place (antH h a) | BeeI b \<Rightarrow> place (beeH h b))"

text \<open>\<open>Place.getAnt\<close>: the guard if there is one, else the base ant.\<close>

definition Place_getAnt :: "Place \<Rightarrow> nat option" where
  "Place_getAnt P = (if guard P \<noteq> None then guard P else ant P)"

definition Place_getGuardedAnt :: "Place \<Rightarrow> nat option" where
  "Place_getGuardedAnt P = ant P"

text \<open>
  \<open>Place.getClosestBee\<close>: the \<open>for\<close> loop, with \<open>p\<close> the current place (\<open>None\<close> once the
  \<open>entrance\<close> link is \<open>undefined\<close>) and \<open>dist\<close> the counter. It ends because \<open>dist\<close> grows
  towards \<open>maxDistance\<close>.
\<close>

function closestBee_loop :: "heap \<Rightarrow> place_ref option \<Rightarrow> int \<Rightarrow> int \<Rightarrow> int \<Rightarrow> nat option" where
  "closestBee_loop h p dist maxDistance minDistance =
     (case p of
        None \<Rightarrow> None
      | Some q \<Rightarrow>
          if dist \<le> maxDistance then
            (if dist \<ge> minDistance \<and> length (bees (placeH h q)) > 0
             then (case bees (placeH h q) of b # _ \<Rightarrow> Some b | [] \<Rightarrow> None)
             else closestBee_loop h (entrance (placeH h q)) (dist + 1) maxDistance minDistance)
          else None)"
  by pat_completeness auto
termination
  by (relation "measure (\<lambda>(h, p, dist, maxDistance, minDistance). nat (maxDistance + 1 - dist))") auto

definition Place_getClosestBee :: "heap \<Rightarrow> place_ref \<Rightarrow> int \<Rightarrow> int \<Rightarrow> nat option" where
  "Place_getClosestBee h p maxDistance minDistance =
     closestBee_loop h (Some p) 0 maxDistance minDistance"

text \<open>\<open>Place.addAnt\<close>: a guard goes to the guard slot, any other ant to the base slot.\<close>

definition Place_addAnt :: "place_ref \<Rightarrow> nat \<Rightarrow> heap \<Rightarrow> bool \<times> heap" where
  "Place_addAnt p a h =
     (let P = placeH h p in
      if kind (antH h a) = Guard then
        (if guard P = None
         then (True, setPlace_ant a (Some p) (h\<lparr>placeH := (placeH h)(p := P\<lparr>guard := Some a\<rparr>)\<rparr>))
         else (False, h))
      else
        (if ant P = None
         then (True, setPlace_ant a (Some p) (h\<lparr>placeH := (placeH h)(p := P\<lparr>ant := Some a\<rparr>)\<rparr>))
         else (False, h)))"

text \<open>
  \<open>Place.removeAnt\<close>: empties the guard slot if it is occupied, else the base slot, and
  returns what was there. The removed ant keeps its \<open>place\<close> field.
\<close>

definition Place_removeAnt :: "place_ref \<Rightarrow> heap \<Rightarrow> nat option \<times> heap" where
  "Place_removeAnt p h =
     (let P = placeH h p in
      if guard P \<noteq> None
      then (guard P, h\<lparr>placeH := (placeH h)(p := P\<lparr>guard := None\<rparr>)\<rparr>)
      else (ant P, h\<lparr>placeH := (placeH h)(p := P\<lparr>ant := None\<rparr>)\<rparr>))"

definition Place_addBee :: "place_ref \<Rightarrow> nat \<Rightarrow> heap \<Rightarrow> heap" where
  "Place_addBee p b h =
     setPlace_bee b (Some p)
       (h\<lparr>placeH := (placeH h)(p := (placeH h p)\<lparr>bees := bees (placeH h p) @ [b]\<rparr>)\<rparr>)"

text \<open>\<open>Place.removeBee\<close>: \<open>indexOf\<close> and \<open>splice(index, 1)\<close> drop the first occurrence.\<close>

definition Place_removeBee :: "place_ref \<Rightarrow> nat \<Rightarrow> heap \<Rightarrow> heap" where
  "Place_removeBee p b h =
     (if b \<in> set (bees (placeH h p))
      then setPlace_bee b None
             (h\<lparr>placeH := (placeH h)(p := (placeH h p)\<lparr>bees := remove1 b (bees (placeH h p))\<rparr>)\<rparr>)
      else h)"

text \<open>\<open>Place.exitBee\<close>: \<open>this.exit.addBee\<close> throws when the place has no exit.\<close>

definition Place_exitBee :: "place_ref \<Rightarrow> nat \<Rightarrow> heap \<Rightarrow> error + heap" where
  "Place_exitBee p b h =
     (let h1 = Place_removeBee p b h in
      case exit (placeH h1 p) of
        None \<Rightarrow> Inl TypeError
      | Some q \<Rightarrow> Inr (Place_addBee q b h1))"

text \<open>
  \<open>Place.removeInsect\<close>: for an ant it calls \<open>removeAnt()\<close>, which takes no argument;
  for a bee it calls \<open>removeBee(insect)\<close>.
\<close>

definition Place_removeInsect :: "place_ref \<Rightarrow> insect \<Rightarrow> heap \<Rightarrow> heap" where
  "Place_removeInsect p i h =
     (case i of AntI a \<Rightarrow> snd (Place_removeAnt p h) | BeeI b \<Rightarrow> Place_removeBee p b h)"

section \<open>Insects\<close>

text \<open>
  A method either returns (\<open>Inr\<close>, with its result and the heap it leaves) or throws
  (\<open>Inl TypeError\<close>: a method was called on \<open>undefined\<close>). Only the commands of
  \<open>AntGame\<close> catch; a throw anywhere else ends the run, so no heap is kept for it.
\<close>

text \<open>
  \<open>Insect.reduceArmor\<close>, used as it is by \<open>Bee\<close> and by every \<open>Ant\<close> but \<open>EaterAnt\<close>.
  \<open>this.place.removeInsect(this)\<close> throws when the back-reference is \<open>undefined\<close>.
\<close>

definition Insect_reduceArmor :: "insect \<Rightarrow> int \<Rightarrow> heap \<Rightarrow> error + (bool \<times> heap)" where
  "Insect_reduceArmor i amount h =
     (let h1 = setArmor i (getArmor i h - amount) h in
      if getArmor i h1 \<le> 0 then
        (case getPlace i h1 of
           None \<Rightarrow> Inl TypeError
         | Some p \<Rightarrow> Inr (True, Place_removeInsect p i h1))
      else Inr (False, h1))"

text \<open>
  The four lines shared by both branches of \<open>EaterAnt.reduceArmor\<close>:
  \<open>eaten = this.stomach.getBees()[0]; this.stomach.removeBee(eaten);
  this.place.addBee(eaten)\<close>. With an empty stomach \<open>eaten\<close> is \<open>undefined\<close>,
  \<open>removeBee\<close> finds nothing and \<open>addBee\<close> throws at \<open>bee.setPlace\<close>.
\<close>

definition coughUp :: "nat \<Rightarrow> heap \<Rightarrow> error + heap" where
  "coughUp a h =
     (case bees (placeH h (Stomach a)) of
        [] \<Rightarrow> Inl TypeError
      | eaten # _ \<Rightarrow>
          (let h1 = Place_removeBee (Stomach a) eaten h in
           case place (antH h1 a) of
             None \<Rightarrow> Inl TypeError
           | Some p \<Rightarrow> Inr (Place_addBee p eaten h1)))"

text \<open>\<open>EaterAnt.reduceArmor\<close>, which ends in \<open>super.reduceArmor(amount)\<close> when lethal.\<close>

definition EaterAnt_reduceArmor :: "nat \<Rightarrow> int \<Rightarrow> heap \<Rightarrow> error + (bool \<times> heap)" where
  "EaterAnt_reduceArmor a amount h =
     (let h1 = setArmor (AntI a) (armor (antH h a) - amount) h in
      if armor (antH h1 a) > 0 then
        (if turnsEating (antH h1 a) = 1 then
           (case coughUp a h1 of
              Inl e \<Rightarrow> Inl e
            | Inr h2 \<Rightarrow> Inr (False, h2\<lparr>antH := (antH h2)(a := (antH h2 a)\<lparr>turnsEating := 3\<rparr>)\<rparr>))
         else Inr (False, h1))
      else if armor (antH h1 a) \<le> 0 then
        (if turnsEating (antH h1 a) > 0 \<and> turnsEating (antH h1 a) \<le> 2 then
           (case coughUp a h1 of
              Inl e \<Rightarrow> Inl e
            | Inr h2 \<Rightarrow> Insect_reduceArmor (AntI a) amount h2)
         else Insect_reduceArmor (AntI a) amount h1)
      else Inr (False, h1))"

text \<open>Dynamic dispatch of \<open>reduceArmor\<close> on the class of the receiver.\<close>

definition reduceArmor :: "insect \<Rightarrow> int \<Rightarrow> heap \<Rightarrow> error + (bool \<times> heap)" where
  "reduceArmor i amount h =
     (case i of
        AntI a \<Rightarrow> (if kind (antH h a) = Eater then EaterAnt_reduceArmor a amount h
                   else Insect_reduceArmor i amount h)
      | BeeI b \<Rightarrow> Insect_reduceArmor i amount h)"

text \<open>\<open>EaterAnt.act\<close>.\<close>

definition EaterAnt_act :: "nat \<Rightarrow> heap \<Rightarrow> error + heap" where
  "EaterAnt_act a h =
     (if turnsEating (antH h a) = 0 then
        (case place (antH h a) of
           None \<Rightarrow> Inl TypeError
         | Some p \<Rightarrow>
             (case Place_getClosestBee h p 0 0 of
                None \<Rightarrow> Inr h
              | Some target \<Rightarrow>
                  (let h1 = Place_removeBee p target h;
                       h2 = Place_addBee (Stomach a) target h1
                   in Inr (h2\<lparr>antH := (antH h2)(a := (antH h2 a)\<lparr>turnsEating := 1\<rparr>)\<rparr>))))
      else if turnsEating (antH h a) > 3 then
        (let h1 = (case bees (placeH h (Stomach a)) of
                     [] \<Rightarrow> h
                   | b # _ \<Rightarrow> Place_removeBee (Stomach a) b h)
         in Inr (h1\<lparr>antH := (antH h1)(a := (antH h1 a)\<lparr>turnsEating := 0\<rparr>)\<rparr>))
      else Inr (h\<lparr>antH := (antH h)(a := (antH h a)\<lparr>turnsEating := Suc (turnsEating (antH h a))\<rparr>)\<rparr>))"

text \<open>Eater \<open>a\<close> holds exactly bee \<open>b\<close> in its stomach.\<close>

definition holds :: "nat \<Rightarrow> nat \<Rightarrow> heap \<Rightarrow> bool" where
  "holds a b h \<longleftrightarrow> bees (placeH h (Stomach a)) = [b] \<and> place (beeH h b) = Some (Stomach a)"

text \<open>\<open>n\<close> action-cycles of one Eater with nothing else happening in between.\<close>

fun EaterAnt_acts :: "nat \<Rightarrow> nat \<Rightarrow> heap \<Rightarrow> error + heap" where
  "EaterAnt_acts 0 a h = Inr h"
| "EaterAnt_acts (Suc n) a h =
     (case EaterAnt_act a h of Inl e \<Rightarrow> Inl e | Inr h1 \<Rightarrow> EaterAnt_acts n a h1)"

text \<open>
  \<open>Bee.sting\<close>, \<open>Bee.isBlocked\<close> and \<open>Bee.act\<close>. In \<open>act\<close> the receiver of each call
  is read again from the heap, as \<open>this.place\<close> is in the source.
\<close>

definition Bee_sting :: "nat \<Rightarrow> nat \<Rightarrow> heap \<Rightarrow> error + (bool \<times> heap)" where
  "Bee_sting b a h = reduceArmor (AntI a) (damage (beeH h b)) h"

definition Bee_isBlocked :: "nat \<Rightarrow> heap \<Rightarrow> error + bool" where
  "Bee_isBlocked b h =
     (case place (beeH h b) of
        None \<Rightarrow> Inl TypeError
      | Some p \<Rightarrow> Inr (Place_getAnt (placeH h p) \<noteq> None))"

definition Bee_act :: "nat \<Rightarrow> heap \<Rightarrow> error + heap" where
  "Bee_act b h =
     (case Bee_isBlocked b h of
        Inl e \<Rightarrow> Inl e
      | Inr blocked \<Rightarrow>
          if blocked then
            (if status (beeH h b) \<noteq> Some ''cold'' then
               (case place (beeH h b) of
                  None \<Rightarrow> Inl TypeError
                | Some p \<Rightarrow>
                    (case Place_getAnt (placeH h p) of
                       None \<Rightarrow> Inl TypeError
                     | Some a \<Rightarrow>
                         (case Bee_sting b a h of
                            Inl e \<Rightarrow> Inl e
                          | Inr (dead, h1) \<Rightarrow> Inr (setStatus b None h1))))
             else Inr (setStatus b None h))
          else if armor (beeH h b) > 0 then
            (if status (beeH h b) \<noteq> Some ''stuck'' then
               (case place (beeH h b) of
                  None \<Rightarrow> Inl TypeError
                | Some p \<Rightarrow>
                    (case Place_exitBee p b h of
                       Inl e \<Rightarrow> Inl e
                     | Inr h1 \<Rightarrow> Inr (setStatus b None h1)))
             else Inr (setStatus b None h))
          else Inr (setStatus b None h))"

section \<open>AntColony\<close>

text \<open>
  The value the commands of \<open>AntGame\<close> pass as \<open>place\<close>: a \<open>Place\<close> object, or something
  that is not one (\<open>undefined\<close>, or an inherited member of an array). Calling a method of
  \<open>Place\<close> on the latter throws.
\<close>

datatype jsplace = IsPlace place_ref | NotAPlace

text \<open>
  \<open>this.boosts[boost]\<close>: the own entry, else an inherited member of the object (neither
  \<open>undefined\<close> nor a number: compared with \<open>< 1\<close> it gives \<open>false\<close>), else \<open>undefined\<close>.
\<close>

datatype boost_entry = Count int | Inherited | Undefined

definition getBoost :: "js_runtime \<Rightarrow> AntColony \<Rightarrow> string \<Rightarrow> boost_entry" where
  "getBoost rt c bo =
     (case boosts c bo of
        Some n \<Rightarrow> Count n
      | None \<Rightarrow> if object_member rt bo then Inherited else Undefined)"

definition AntColony_queenHasBees :: "AntColony \<Rightarrow> heap \<Rightarrow> bool" where
  "AntColony_queenHasBees c h = (length (bees (placeH h (queenPlace c))) > 0)"

definition AntColony_getAllBees :: "AntColony \<Rightarrow> heap \<Rightarrow> nat list" where
  "AntColony_getAllBees c h = concat (map (\<lambda>row. concat (map (\<lambda>p. bees (placeH h p)) row)) (places c))"

text \<open>\<open>AntColony.deployAnt\<close>.\<close>

definition AntColony_deployAnt ::
  "nat \<Rightarrow> jsplace \<Rightarrow> AntColony \<Rightarrow> heap \<Rightarrow> error + (string option \<times> AntColony \<times> heap)" where
  "AntColony_deployAnt a pl c h =
     (if food c \<ge> foodCost (antH h a) then
        (case pl of
           NotAPlace \<Rightarrow> Inl TypeError
         | IsPlace p \<Rightarrow>
             (case Place_addAnt p a h of
                (success, h1) \<Rightarrow>
                  if success
                  then Inr (None, c\<lparr>food := food c - foodCost (antH h1 a)\<rparr>, h1)
                  else Inr (Some ''tunnel already occupied'', c, h1)))
      else Inr (Some ''not enough food'', c, h))"

text \<open>\<open>AntColony.applyBoost\<close>.\<close>

definition AntColony_applyBoost ::
  "js_runtime \<Rightarrow> string \<Rightarrow> jsplace \<Rightarrow> AntColony \<Rightarrow> heap \<Rightarrow> error + (string option \<times> AntColony \<times> heap)" where
  "AntColony_applyBoost rt bo pl c h =
     (if getBoost rt c bo = Undefined \<or> (case getBoost rt c bo of Count n \<Rightarrow> n < 1 | _ \<Rightarrow> False) then
        Inr (Some ''no such boost'', c, h)
      else
        (case pl of
           NotAPlace \<Rightarrow> Inl TypeError
         | IsPlace p \<Rightarrow>
             (case Place_getAnt (placeH h p) of
                None \<Rightarrow> Inr (Some ''no Ant at location'', c, h)
              | Some a \<Rightarrow> Inr (None, c, setBoost a bo h))))"

section \<open>AntGame\<close>

text \<open>\<open>placeCoordinates.split(',')\<close>: never empty; splitting the empty string gives one empty field.\<close>

fun split_comma :: "string \<Rightarrow> string list" where
  "split_comma [] = [[]]"
| "split_comma (c # cs) =
     (if c = CHR '','' then [] # split_comma cs
      else (case split_comma cs of w # ws \<Rightarrow> (c # w) # ws | [] \<Rightarrow> [[c]]))"

text \<open>
  A string used as a property key of an array names element \<open>i\<close> only when it is the
  decimal numeral of \<open>i\<close>: digits only, no sign, no blank, no leading zero.
\<close>

definition digit_val :: "char \<Rightarrow> nat option" where
  "digit_val = map_of (zip ''0123456789'' [0, 1, 2, 3, 4, 5, 6, 7, 8, 9])"

fun dec_val :: "nat \<Rightarrow> string \<Rightarrow> nat option" where
  "dec_val n [] = Some n"
| "dec_val n (c # cs) = (case digit_val c of None \<Rightarrow> None | Some d \<Rightarrow> dec_val (10 * n + d) cs)"

definition array_index :: "string \<Rightarrow> nat option" where
  "array_index k =
     (case k of
        [] \<Rightarrow> None
      | c # cs \<Rightarrow> if c = CHR ''0'' \<and> cs \<noteq> [] then None else dec_val 0 k)"

text \<open>
  \<open>xs[k]\<close> for an array \<open>xs\<close> and a string \<open>k\<close>: an element, an inherited member, or
  \<open>undefined\<close>.
\<close>

datatype 'a js_prop = Elem 'a | Member | Undef

definition array_get :: "js_runtime \<Rightarrow> 'a list \<Rightarrow> string \<Rightarrow> 'a js_prop" where
  "array_get rt xs k =
     (case array_index k of
        Some i \<Rightarrow> if i < length xs then Elem (xs ! i) else Undef
      | None \<Rightarrow> if array_member rt k then Member else Undef)"

text \<open>
  \<open>coords = placeCoordinates.split(','); this.colony.getPlaces()[coords[0]][coords[1]]\<close>.
  A missing \<open>coords[1]\<close> is \<open>undefined\<close> and reads the key \<open>undefined\<close>. Indexing
  \<open>undefined\<close> throws. Indexing an inherited member (a number, a function or an object)
  never yields a \<open>Place\<close>; it throws for the keys the runtime refuses on that member.
\<close>

definition coordField :: "nat \<Rightarrow> string \<Rightarrow> string" where
  "coordField i placeCoordinates =
     (let coords = split_comma placeCoordinates
      in if i < length coords then coords ! i else ''undefined'')"

definition lookupPlace :: "js_runtime \<Rightarrow> place_ref list list \<Rightarrow> string \<Rightarrow> error + jsplace" where
  "lookupPlace rt grid placeCoordinates =
     (case array_get rt grid (coordField 0 placeCoordinates) of
        Undef \<Rightarrow> Inl TypeError
      | Member \<Rightarrow>
          if member_read_throws rt (coordField 0 placeCoordinates) (coordField 1 placeCoordinates)
          then Inl TypeError
          else Inr NotAPlace
      | Elem row \<Rightarrow>
          (case array_get rt row (coordField 1 placeCoordinates) of
             Elem p \<Rightarrow> Inr (IsPlace p)
           | Member \<Rightarrow> Inr NotAPlace
           | Undef \<Rightarrow> Inr NotAPlace))"

text \<open>\<open>antType.toLowerCase()\<close> on the letters A to Z.\<close>

definition toLowerCase :: "string \<Rightarrow> string" where
  "toLowerCase =
     map (\<lambda>c. case map_of (zip ''ABCDEFGHIJKLMNOPQRSTUVWXYZ'' ''abcdefghijklmnopqrstuvwxyz'') c of
                 None \<Rightarrow> c | Some d \<Rightarrow> d)"

text \<open>The constructors: \<open>super(armor, foodCost)\<close> of each subclass of \<open>Ant\<close>.\<close>

definition newAnt :: "ant_kind \<Rightarrow> Ant" where
  "newAnt k =
     \<lparr>armor = (case k of Grower \<Rightarrow> 1 | Thrower \<Rightarrow> 1 | Eater \<Rightarrow> 2 | Scuba \<Rightarrow> 1 | Guard \<Rightarrow> 2),
      place = None,
      kind = k,
      foodCost = (case k of Grower \<Rightarrow> 1 | Thrower \<Rightarrow> 4 | Eater \<Rightarrow> 4 | Scuba \<Rightarrow> 5 | Guard \<Rightarrow> 4),
      boost = None,
      turnsEating = 0\<rparr>"

definition newPlace :: Place where
  "newPlace = \<lparr>water = False, exit = None, entrance = None, ant = None, guard = None, bees = []\<rparr>"

text \<open>The \<open>switch\<close> of \<open>AntGame.deployAnt\<close>.\<close>

definition antOfType :: "string \<Rightarrow> ant_kind option" where
  "antOfType t =
     (if t = ''grower'' then Some Grower
      else if t = ''thrower'' then Some Thrower
      else if t = ''eater'' then Some Eater
      else if t = ''scuba'' then Some Scuba
      else if t = ''guard'' then Some Guard
      else None)"

text \<open>\<open>new XAnt()\<close>: the next free address; an Eater comes with its empty stomach.\<close>

definition allocAnt :: "ant_kind \<Rightarrow> heap \<Rightarrow> nat \<times> heap" where
  "allocAnt k h =
     (let a = nextAnt h;
          h1 = h\<lparr>antH := (antH h)(a := newAnt k), nextAnt := Suc a\<rparr>
      in (a, if k = Eater then h1\<lparr>placeH := (placeH h1)(Stomach a := newPlace)\<rparr> else h1))"

text \<open>
  \<open>AntGame.deployAnt\<close>. The body of the \<open>try\<close> changes nothing before it throws, so the
  \<open>catch\<close> returns with the state the \<open>try\<close> began in.
\<close>

definition AntGame_deployAnt ::
  "js_runtime \<Rightarrow> string \<Rightarrow> string \<Rightarrow> AntGame \<Rightarrow> heap \<Rightarrow> string option \<times> AntGame \<times> heap" where
  "AntGame_deployAnt rt antType placeCoordinates g h =
     (case antOfType (toLowerCase antType) of
        None \<Rightarrow> (Some ''unknown ant type'', g, h)
      | Some k \<Rightarrow>
          (case allocAnt k h of
             (a, h1) \<Rightarrow>
               (case (case lookupPlace rt (places (colony g)) placeCoordinates of
                        Inl e \<Rightarrow> Inl e
                      | Inr pl \<Rightarrow> AntColony_deployAnt a pl (colony g) h1) of
                  Inl e \<Rightarrow> (Some ''illegal location'', g, h1)
                | Inr (r, c, h2) \<Rightarrow> (r, g\<lparr>colony := c\<rparr>, h2))))"

text \<open>\<open>AntGame.removeAnt\<close>.\<close>

definition AntGame_removeAnt ::
  "js_runtime \<Rightarrow> string \<Rightarrow> AntGame \<Rightarrow> heap \<Rightarrow> string option \<times> AntGame \<times> heap" where
  "AntGame_removeAnt rt placeCoordinates g h =
     (case lookupPlace rt (places (colony g)) placeCoordinates of
        Inl e \<Rightarrow> (Some ''illegal location'', g, h)
      | Inr NotAPlace \<Rightarrow> (Some ''illegal location'', g, h)
      | Inr (IsPlace p) \<Rightarrow> (None, g, snd (Place_removeAnt p h)))"

text \<open>\<open>AntGame.boostAnt\<close>.\<close>

definition AntGame_boostAnt ::
  "js_runtime \<Rightarrow> string \<Rightarrow> string \<Rightarrow> AntGame \<Rightarrow> heap \<Rightarrow> string option \<times> AntGame \<times> heap" where
  "AntGame_boostAnt rt boostType placeCoordinates g h =
     (case (case lookupPlace rt (places (colony g)) placeCoordinates of
              Inl e \<Rightarrow> Inl e
            | Inr pl \<Rightarrow> AntColony_applyBoost rt boostType pl (colony g) h) of
        Inl e \<Rightarrow> (Some ''illegal location'', g, h)
      | Inr (r, c, h1) \<Rightarrow> (r, g\<lparr>colony := c\<rparr>, h1))"

text \<open>\<open>AntGame.gameIsWon\<close>: \<open>Some False\<close>, \<open>Some True\<close>, or \<open>None\<close> for \<open>undefined\<close>.\<close>

definition AntGame_gameIsWon :: "AntGame \<Rightarrow> heap \<Rightarrow> bool option" where
  "AntGame_gameIsWon g h =
     (if AntColony_queenHasBees (colony g) h then Some False
      else if length (AntColony_getAllBees (colony g) h) + length (bees (placeH h (hive g))) = 0
           then Some True
      else None)"

section \<open>The ordering that closest-attacker is specified by\<close>

text \<open>The cell \<open>d\<close> hops from \<open>p\<close> along the forward (\<open>entrance\<close>) links, if the chain is that long.\<close>

fun hop :: "heap \<Rightarrow> place_ref \<Rightarrow> nat \<Rightarrow> place_ref option" where
  "hop h p 0 = Some p"
| "hop h p (Suc d) = (case hop h p d of None \<Rightarrow> None | Some q \<Rightarrow> entrance (placeH h q))"

text \<open>The attackers at hop distance \<open>d\<close>, in insertion order.\<close>

definition attackersAt :: "heap \<Rightarrow> place_ref \<Rightarrow> nat \<Rightarrow> nat list" where
  "attackersAt h p d = (case hop h p d of None \<Rightarrow> [] | Some q \<Rightarrow> bees (placeH h q))"

text \<open>
  All attackers at a distance \<open>d\<close> with \<open>minHops \<le> d \<le> maxHops\<close>, ordered by distance
  and then by insertion order; the specified result is the first of them.
\<close>

definition attackersInRange :: "heap \<Rightarrow> place_ref \<Rightarrow> int \<Rightarrow> int \<Rightarrow> nat list" where
  "attackersInRange h p maxHops minHops =
     concat (map (attackersAt h p) (filter (\<lambda>d. minHops \<le> int d) [0 ..< nat (maxHops + 1)]))"

definition first_of :: "'a list \<Rightarrow> 'a option" where
  "first_of xs = (case xs of [] \<Rightarrow> None | x # _ \<Rightarrow> Some x)"

definition closestAttacker_spec :: "heap \<Rightarrow> place_ref \<Rightarrow> int \<Rightarrow> int \<Rightarrow> nat option" where
  "closestAttacker_spec h p maxHops minHops = first_of (attackersInRange h p maxHops minHops)"

section \<open>Concrete states\<close>

text \<open>
  A runtime with a few of the inherited member names; \<open>caller\<close> and \<open>arguments\<close> cannot be
  read from the inherited functions.
\<close>

definition sample_runtime :: js_runtime where
  "sample_runtime =
     \<lparr>array_member = (\<lambda>k. k \<in> set [''length'', ''push'', ''pop'', ''constructor'', ''toString'']),
      object_member = (\<lambda>k. k \<in> set [''constructor'', ''toString'', ''valueOf'']),
      member_read_throws =
        (\<lambda>k0 k1. k0 \<in> set [''push'', ''pop'', ''constructor'', ''toString'']
                  \<and> k1 \<in> set [''caller'', ''arguments''])\<rparr>"

text \<open>
  \<open>new AntColony(food, 1, 3)\<close>: one tunnel of three places \<open>Loc 1\<close>, \<open>Loc 2\<close>, \<open>Loc 3\<close>
  behind the queen's place \<open>Loc 0\<close>, as the constructor links them; \<open>Loc 4\<close> is the hive.
\<close>

definition lane3_heap :: heap where
  "lane3_heap =
     \<lparr>placeH = (\<lambda>_. newPlace)
        (Loc 0 := newPlace\<lparr>entrance := Some (Loc 1)\<rparr>,
         Loc 1 := newPlace\<lparr>exit := Some (Loc 0), entrance := Some (Loc 2)\<rparr>,
         Loc 2 := newPlace\<lparr>exit := Some (Loc 1), entrance := Some (Loc 3)\<rparr>,
         Loc 3 := newPlace\<lparr>exit := Some (Loc 2)\<rparr>),
      antH = (\<lambda>_. newAnt Grower),
      beeH = (\<lambda>_. \<lparr>armor = 0, place = None, damage = 0, status = None\<rparr>),
      nextAnt = 0\<rparr>"

definition lane3_colony :: "int \<Rightarrow> AntColony" where
  "lane3_colony startingFood =
     \<lparr>food = startingFood,
      places = [[Loc 1, Loc 2, Loc 3]],
      beeEntrances = [Loc 3],
      queenPlace = Loc 0,
      boosts = [''FlyingLeaf'' \<mapsto> 1, ''StickyLeaf'' \<mapsto> 1, ''IcyLeaf'' \<mapsto> 1, ''BugSpray'' \<mapsto> 0]\<rparr>"

definition lane3_game :: "int \<Rightarrow> AntGame" where
  "lane3_game startingFood = \<lparr>turn = 0, colony = lane3_colony startingFood, hive = Loc 4\<rparr>"

text \<open>\<open>new Bee(armor, damage)\<close> at address \<open>b\<close>, added to place \<open>p\<close>.\<close>

definition putBee :: "nat \<Rightarrow> int \<Rightarrow> int \<Rightarrow> place_ref \<Rightarrow> heap \<Rightarrow> heap" where
  "putBee b ar dm p h =
     Place_addBee p b (h\<lparr>beeH := (beeH h)(b := \<lparr>armor = ar, place = None, damage = dm, status = None\<rparr>)\<rparr>)"

text \<open>An ant of kind \<open>k\<close> at address \<open>a\<close>, added to place \<open>p\<close>.\<close>

definition putAnt :: "nat \<Rightarrow> ant_kind \<Rightarrow> place_ref \<Rightarrow> heap \<Rightarrow> heap" where
  "putAnt a k p h = snd (Place_addAnt p a (h\<lparr>antH := (antH h)(a := newAnt k), nextAnt := Suc a\<rparr>))"

section \<open>Auxiliary facts\<close>

lemma hop_None_later: "hop h p k = None \<Longrightarrow> k \<le> d \<Longrightarrow> hop h p d = None"
  by (induction d) (auto simp: le_Suc_eq)

lemma attackersAt_beyond_chain: "hop h p k = None \<Longrightarrow> k \<le> d \<Longrightarrow> attackersAt h p d = []"
  by (simp add: attackersAt_def hop_None_later)

text \<open>
  The loop invariant of \<open>getClosestBee\<close>: standing \<open>k\<close> hops from the start, the loop
  returns the first attacker among those at the distances \<open>k, k + 1, ...\<close> that lie within
  the bounds.
\<close>

lemma closestBee_loop_first:
  "closestBee_loop h (hop h p k) (int k) mx mn =
     first_of (concat (map (attackersAt h p) (filter (\<lambda>d. mn \<le> int d) [k ..< nat (mx + 1)])))"
proof (induction "nat (mx + 1) - k" arbitrary: k)
  case 0
  then have "\<not> int k \<le> mx" by linarith
  moreover from 0 have "[k ..< nat (mx + 1)] = []" by simp
  ultimately show ?case
    by (simp add: first_of_def split: option.splits)
next
  case (Suc n)
  then have le: "int k \<le> mx" by linarith
  then have upt: "[k ..< nat (mx + 1)] = k # [Suc k ..< nat (mx + 1)]"
    by (simp add: upt_conv_Cons)
  have IH: "closestBee_loop h (hop h p (Suc k)) (int (Suc k)) mx mn =
     first_of (concat (map (attackersAt h p) (filter (\<lambda>d. mn \<le> int d) [Suc k ..< nat (mx + 1)])))"
    using Suc by (intro Suc.hyps(1)) linarith
  show ?case
  proof (cases "hop h p k")
    case None
    have rest: "concat (map (attackersAt h p) (filter (\<lambda>d. mn \<le> int d) [k ..< nat (mx + 1)])) = []"
      unfolding concat_eq_Nil_conv using None by (auto intro: attackersAt_beyond_chain)
    have "closestBee_loop h (hop h p k) (int k) mx mn = None"
      using None by simp
    then show ?thesis unfolding rest by (simp add: first_of_def)
  next
    case (Some q)
    have here: "attackersAt h p k = bees (placeH h q)"
      using Some by (simp add: attackersAt_def)
    have onward: "hop h p (Suc k) = entrance (placeH h q)"
      using Some by simp
    show ?thesis
    proof (cases "mn \<le> int k \<and> bees (placeH h q) \<noteq> []")
      case True
      then obtain b bs where "bees (placeH h q) = b # bs"
        by (cases "bees (placeH h q)") auto
      then show ?thesis
        using True le Some here upt by (simp add: first_of_def)
    next
      case False
      have "closestBee_loop h (hop h p k) (int k) mx mn
            = closestBee_loop h (entrance (placeH h q)) (int k + 1) mx mn"
        using False le Some by auto
      also have "\<dots> = closestBee_loop h (hop h p (Suc k)) (int (Suc k)) mx mn"
        using onward by (simp add: add.commute)
      also note IH
      finally show ?thesis using False here upt by auto
    qed
  qed
qed

text \<open>The three stages of the Eater's cycle and the hit at counter 1.\<close>

lemma EaterAnt_act_capture:
  assumes "turnsEating (antH h a) = 0" "place (antH h a) = Some (Loc n)"
    "bees (placeH h (Loc n)) = b # bs" "bees (placeH h (Stomach a)) = []"
  shows "\<exists>h1. EaterAnt_act a h = Inr h1 \<and> turnsEating (antH h1 a) = 1 \<and> holds a b h1
          \<and> bees (placeH h1 (Loc n)) = bs"
  using assms
  by (simp add: EaterAnt_act_def Place_getClosestBee_def setPlace_bee_def Place_addBee_def
      Place_removeBee_def holds_def Let_def)

lemma EaterAnt_act_digest:
  assumes "turnsEating (antH h a) = k" "0 < k" "k \<le> 3" "holds a b h"
  shows "\<exists>h1. EaterAnt_act a h = Inr h1 \<and> turnsEating (antH h1 a) = Suc k \<and> holds a b h1"
  using assms by (simp add: EaterAnt_act_def holds_def)

lemma EaterAnt_act_release:
  assumes "turnsEating (antH h a) = 4" "holds a b h"
  shows "\<exists>h1. EaterAnt_act a h = Inr h1 \<and> turnsEating (antH h1 a) = 0
     \<and> bees (placeH h1 (Stomach a)) = [] \<and> place (beeH h1 b) = None"
  using assms by (simp add: EaterAnt_act_def holds_def setPlace_bee_def Place_addBee_def
      Place_removeBee_def)

lemma EaterAnt_reduceArmor_at_one:
  assumes "turnsEating (antH h a) = 1" "place (antH h a) = Some (Loc n)"
    "bees (placeH h (Stomach a)) = b # bs" "armor (antH h a) - amount > 0"
  shows "\<exists>h'. EaterAnt_reduceArmor a amount h = Inr (False, h')
      \<and> turnsEating (antH h' a) = 3
      \<and> bees (placeH h' (Loc n)) = bees (placeH h (Loc n)) @ [b]
      \<and> place (beeH h' b) = Some (Loc n)
      \<and> bees (placeH h' (Stomach a)) = bs
      \<and> armor (antH h' a) = armor (antH h a) - amount"
  using assms
  by (simp add: EaterAnt_reduceArmor_def coughUp_def setPlace_bee_def setArmor_def getArmor_def
      getPlace_def Place_removeAnt_def Place_addBee_def Place_removeBee_def Place_removeInsect_def
      Let_def)

text \<open>
  A coordinate string resolves to a cell exactly when its first two comma-separated
  fields are the decimal numerals of a lane and of a step of that lane.
\<close>

lemma lookupPlace_resolves:
  "lookupPlace rt grid s = Inr (IsPlace p) \<longleftrightarrow>
     (\<exists>i j. array_index (coordField 0 s) = Some i \<and> i < length grid
          \<and> array_index (coordField 1 s) = Some j \<and> j < length (grid ! i)
          \<and> p = grid ! i ! j)"
  by (auto simp: lookupPlace_def array_get_def split: option.splits js_prop.splits if_splits)

text \<open>
  What the three commands answer when the coordinate yields a value that is not a cell
  and the read has not thrown: \<open>remove\<close> always answers \<open>illegal location\<close>; \<open>deploy\<close>
  answers it only when the food covers the cost, and \<open>not enough food\<close> otherwise.
\<close>

lemma AntGame_removeAnt_not_a_cell:
  assumes "\<forall>p. lookupPlace rt (places (colony g)) s \<noteq> Inr (IsPlace p)"
  shows "AntGame_removeAnt rt s g h = (Some ''illegal location'', g, h)"
proof (cases "lookupPlace rt (places (colony g)) s")
  case (Inl e)
  then show ?thesis by (simp add: AntGame_removeAnt_def)
next
  case (Inr pl)
  with assms have "pl = NotAPlace" by (cases pl) auto
  with Inr show ?thesis by (simp add: AntGame_removeAnt_def)
qed

lemma AntGame_deployAnt_not_a_cell:
  assumes "antOfType (toLowerCase t) = Some k"
    and "lookupPlace rt (places (colony g)) s = Inr NotAPlace"
  shows "fst (AntGame_deployAnt rt t s g h) =
     (if foodCost (newAnt k) \<le> food (colony g) then Some ''illegal location''
      else Some ''not enough food'')"
  using assms
  by (simp add: AntGame_deployAnt_def AntColony_deployAnt_def allocAnt_def Let_def)

text \<open>
  \<open>AntColony.applyBoost\<close> returns the colony it was given, whatever the outcome, and
  \<open>Place.removeInsect\<close> does the same for every ant it is handed.
\<close>

lemma AntColony_applyBoost_colony_unchanged:
  "AntColony_applyBoost rt bo pl c h = Inr (r, c', h') \<Longrightarrow> c' = c"
  by (auto simp: AntColony_applyBoost_def split: if_splits jsplace.splits option.splits)

lemma Place_removeInsect_any_ant:
  "Place_removeInsect p (AntI a) h = Place_removeInsect p (AntI a') h"
  by (simp add: Place_removeInsect_def)

section \<open>The claims\<close>

text \<open>
  Claim C1 (apply-boost). The claim says that a successful apply-boost takes one unit of
  the boost from the inventory. \<open>AntColony.applyBoost\<close> tests the count and gives the
  boost to the visible occupant, but it never writes the inventory: with one
  \<open>FlyingLeaf\<close> in stock and a Thrower at the cell, the call succeeds, the Thrower
  carries the boost, and the colony, inventory included, is returned as it was.
\<close>

theorem C1_applyBoost_keeps_inventory:
  "AntColony_applyBoost sample_runtime ''FlyingLeaf'' (IsPlace (Loc 3)) (lane3_colony 5)
       (putAnt 0 Thrower (Loc 3) lane3_heap)
     = Inr (None, lane3_colony 5, setBoost 0 ''FlyingLeaf'' (putAnt 0 Thrower (Loc 3) lane3_heap))
   \<and> boosts (lane3_colony 5) ''FlyingLeaf'' = Some 1
   \<and> boost (antH (setBoost 0 ''FlyingLeaf'' (putAnt 0 Thrower (Loc 3) lane3_heap)) 0)
       = Some ''FlyingLeaf''"
  by (simp add: AntColony_applyBoost_def getBoost_def sample_runtime_def lane3_heap_def
      lane3_colony_def putAnt_def newPlace_def newAnt_def setPlace_ant_def setBoost_def
      Place_getAnt_def Place_addAnt_def)

text \<open>
  Claim C2 (illegal location). The claim says that \<open>deploy\<close> and \<open>apply-boost\<close> answer
  \<open>illegal location\<close> for every coordinate that names no cell, whatever the food and the
  inventory. The commands rely on a \<open>catch\<close> around the use of the cell. For a lane that
  exists and a step that does not, the read yields \<open>undefined\<close> without throwing, and
  \<open>AntColony.deployAnt\<close> and \<open>AntColony.applyBoost\<close> test the food and the inventory
  before they touch the cell: on the board of one lane of three cells, \<open>deploy\<close> of a
  Thrower (cost 4) at \<open>0,7\<close> with 3 food answers \<open>not enough food\<close>, and \<open>apply-boost\<close> of
  \<open>BugSpray\<close> (none in stock) at \<open>0,7\<close> answers \<open>no such boost\<close>. \<open>remove\<close>, which uses the
  cell at once, answers \<open>illegal location\<close> for the same string, and so does \<open>deploy\<close> once
  the food suffices.
\<close>

theorem C2_bad_step_answers_other_token:
  "lookupPlace sample_runtime (places (colony (lane3_game 3))) ''0,7'' = Inr NotAPlace
   \<and> AntGame_deployAnt sample_runtime ''thrower'' ''0,7'' (lane3_game 3) lane3_heap
     = (Some ''not enough food'', lane3_game 3, snd (allocAnt Thrower lane3_heap))
   \<and> AntGame_boostAnt sample_runtime ''BugSpray'' ''0,7'' (lane3_game 3) lane3_heap
     = (Some ''no such boost'', lane3_game 3, lane3_heap)
   \<and> AntGame_removeAnt sample_runtime ''0,7'' (lane3_game 3) lane3_heap
     = (Some ''illegal location'', lane3_game 3, lane3_heap)
   \<and> AntGame_deployAnt sample_runtime ''thrower'' ''0,7'' (lane3_game 5) lane3_heap
     = (Some ''illegal location'', lane3_game 5, snd (allocAnt Thrower lane3_heap))"
  by (simp add: AntGame_deployAnt_def AntGame_boostAnt_def AntGame_removeAnt_def
      AntColony_deployAnt_def AntColony_applyBoost_def getBoost_def lookupPlace_def
      coordField_def array_get_def array_index_def digit_val_def toLowerCase_def antOfType_def
      allocAnt_def sample_runtime_def lane3_heap_def lane3_colony_def lane3_game_def
      newPlace_def newAnt_def)

text \<open>
  Claim C3 (guard and shielded defender). The claim says that when the armor of the base
  defender runs out, the detachment removes the base defender and leaves the guard.
  \<open>Insect.reduceArmor\<close> detaches through \<open>Place.removeInsect\<close>, which for any ant calls
  \<open>removeAnt()\<close>, and that empties the guard slot first. With a Thrower (address 0) and a
  Guard (address 1) in one cell, a lethal \<open>reduceArmor\<close> on the Thrower reports the
  expiry, empties the guard slot and leaves the Thrower, armor \<open>-9\<close>, in the base slot.
\<close>

theorem C3_detachment_removes_guard:
  "reduceArmor (AntI 0) 10 (putAnt 1 Guard (Loc 3) (putAnt 0 Thrower (Loc 3) lane3_heap))
     = Inr (True, snd (Place_removeAnt (Loc 3)
              (setArmor (AntI 0) (- 9) (putAnt 1 Guard (Loc 3) (putAnt 0 Thrower (Loc 3) lane3_heap)))))
   \<and> guard (placeH (putAnt 1 Guard (Loc 3) (putAnt 0 Thrower (Loc 3) lane3_heap)) (Loc 3)) = Some 1
   \<and> ant (placeH (putAnt 1 Guard (Loc 3) (putAnt 0 Thrower (Loc 3) lane3_heap)) (Loc 3)) = Some 0
   \<and> guard (placeH (snd (Place_removeAnt (Loc 3)
              (setArmor (AntI 0) (- 9) (putAnt 1 Guard (Loc 3) (putAnt 0 Thrower (Loc 3) lane3_heap)))))
        (Loc 3)) = None
   \<and> ant (placeH (snd (Place_removeAnt (Loc 3)
              (setArmor (AntI 0) (- 9) (putAnt 1 Guard (Loc 3) (putAnt 0 Thrower (Loc 3) lane3_heap)))))
        (Loc 3)) = Some 0"
  by (simp add: reduceArmor_def Insect_reduceArmor_def lane3_heap_def putAnt_def newPlace_def
      newAnt_def setPlace_ant_def setPlace_bee_def setArmor_def getArmor_def getPlace_def
      Place_addAnt_def Place_removeAnt_def Place_addBee_def Place_removeBee_def
      Place_removeInsect_def)

text \<open>
  Claim C4 (closest attacker). For every heap, cell and pair of bounds,
  \<open>Place.getClosestBee\<close> returns the first attacker in the list of all attackers at a hop
  distance between \<open>minDistance\<close> and \<open>maxDistance\<close> (both included), ordered by
  distance and, within a cell, by insertion; it returns nothing when that list is empty.
  The bounds need not be ordered for this to hold.
\<close>

theorem C4_getClosestBee_is_first_in_range:
  "Place_getClosestBee h p maxDistance minDistance = closestAttacker_spec h p maxDistance minDistance"
  using closestBee_loop_first[of h p 0 maxDistance minDistance]
  by (simp add: Place_getClosestBee_def closestAttacker_spec_def attackersInRange_def)

theorem C4_getClosestBee_witness:
  "attackersInRange (putBee 2 2 1 (Loc 3) (putBee 1 2 1 (Loc 2) (putBee 0 2 1 (Loc 2) lane3_heap)))
       (Loc 1) 3 0 = [0, 1, 2]
   \<and> Place_getClosestBee (putBee 2 2 1 (Loc 3) (putBee 1 2 1 (Loc 2) (putBee 0 2 1 (Loc 2) lane3_heap)))
       (Loc 1) 3 0 = Some 0
   \<and> Place_getClosestBee (putBee 2 2 1 (Loc 3) (putBee 1 2 1 (Loc 2) (putBee 0 2 1 (Loc 2) lane3_heap)))
       (Loc 1) 3 2 = Some 2
   \<and> Place_getClosestBee (putBee 2 2 1 (Loc 3) (putBee 1 2 1 (Loc 2) (putBee 0 2 1 (Loc 2) lane3_heap)))
       (Loc 1) 0 0 = None"
  using C4_getClosestBee_is_first_in_range
          [of "putBee 2 2 1 (Loc 3) (putBee 1 2 1 (Loc 2) (putBee 0 2 1 (Loc 2) lane3_heap))" "Loc 1" 3 0]
        C4_getClosestBee_is_first_in_range
          [of "putBee 2 2 1 (Loc 3) (putBee 1 2 1 (Loc 2) (putBee 0 2 1 (Loc 2) lane3_heap))" "Loc 1" 3 2]
        C4_getClosestBee_is_first_in_range
          [of "putBee 2 2 1 (Loc 3) (putBee 1 2 1 (Loc 2) (putBee 0 2 1 (Loc 2) lane3_heap))" "Loc 1" 0 0]
  by (simp add: closestAttacker_spec_def attackersInRange_def attackersAt_def first_of_def
      lane3_heap_def putBee_def newPlace_def newAnt_def setPlace_bee_def Place_addBee_def
          upt_rec numeral_eq_Suc)

text \<open>
  Claim C5 (Eater cycle). An idle Eater in cell \<open>Loc n\<close> with an empty stomach and bee \<open>b\<close>
  first in its cell captures \<open>b\<close> on its action (counter 0 to 1). With no
  \<open>reduceArmor\<close> in between, after one, two and three further actions it still holds \<open>b\<close>
  (counter 2, 3, 4); the fourth action after the capture removes \<open>b\<close> from the stomach for
  good (\<open>b\<close> is in no place) and resets the counter to 0. And a \<open>reduceArmor\<close> that leaves
  the armor positive while the counter is 1 moves the held bee to the end of the
  attackers of the Eater's cell and sets the counter to 3.
\<close>

theorem C5_eater_cycle:
  "(turnsEating (antH h a) = 0 \<and> place (antH h a) = Some (Loc n)
      \<and> bees (placeH h (Loc n)) = b # bs \<and> bees (placeH h (Stomach a)) = []
    \<longrightarrow> (\<exists>h1. EaterAnt_act a h = Inr h1 \<and> turnsEating (antH h1 a) = 1 \<and> holds a b h1
          \<and> bees (placeH h1 (Loc n)) = bs
          \<and> (\<exists>h2. EaterAnt_acts 1 a h1 = Inr h2 \<and> turnsEating (antH h2 a) = 2 \<and> holds a b h2)
          \<and> (\<exists>h3. EaterAnt_acts 2 a h1 = Inr h3 \<and> turnsEating (antH h3 a) = 3 \<and> holds a b h3)
          \<and> (\<exists>h4. EaterAnt_acts 3 a h1 = Inr h4 \<and> turnsEating (antH h4 a) = 4 \<and> holds a b h4)
          \<and> (\<exists>h5. EaterAnt_acts 4 a h1 = Inr h5 \<and> turnsEating (antH h5 a) = 0
                \<and> bees (placeH h5 (Stomach a)) = [] \<and> place (beeH h5 b) = None)))
   \<and> (turnsEating (antH h a) = 1 \<and> place (antH h a) = Some (Loc n)
      \<and> bees (placeH h (Stomach a)) = b # bs \<and> armor (antH h a) - amount > 0
    \<longrightarrow> (\<exists>h'. EaterAnt_reduceArmor a amount h = Inr (False, h')
          \<and> turnsEating (antH h' a) = 3
          \<and> bees (placeH h' (Loc n)) = bees (placeH h (Loc n)) @ [b]
          \<and> place (beeH h' b) = Some (Loc n)
          \<and> bees (placeH h' (Stomach a)) = bs
          \<and> armor (antH h' a) = armor (antH h a) - amount))"
proof (intro conjI impI)
  assume "turnsEating (antH h a) = 0 \<and> place (antH h a) = Some (Loc n)
      \<and> bees (placeH h (Loc n)) = b # bs \<and> bees (placeH h (Stomach a)) = []"
  then obtain h1 where h1: "EaterAnt_act a h = Inr h1" "turnsEating (antH h1 a) = 1" "holds a b h1"
      "bees (placeH h1 (Loc n)) = bs"
    using EaterAnt_act_capture[of h a n b bs] by auto
  obtain h2 where h2: "EaterAnt_act a h1 = Inr h2" "turnsEating (antH h2 a) = 2" "holds a b h2"
    using EaterAnt_act_digest[of h1 a 1 b] h1 by auto
  obtain h3 where h3: "EaterAnt_act a h2 = Inr h3" "turnsEating (antH h3 a) = 3" "holds a b h3"
    using EaterAnt_act_digest[of h2 a 2 b] h2 by auto
  obtain h4 where h4: "EaterAnt_act a h3 = Inr h4" "turnsEating (antH h4 a) = 4" "holds a b h4"
    using EaterAnt_act_digest[of h3 a 3 b] h3 by auto
  obtain h5 where h5: "EaterAnt_act a h4 = Inr h5" "turnsEating (antH h5 a) = 0"
      "bees (placeH h5 (Stomach a)) = []" "place (beeH h5 b) = None"
    using EaterAnt_act_release[of h4 a b] h4 by auto
  have n1: "EaterAnt_acts 1 a h1 = Inr h2" using h2 by simp
  have n2: "EaterAnt_acts 2 a h1 = Inr h3" using h2 h3 by (simp add: numeral_2_eq_2)
  have n3: "EaterAnt_acts 3 a h1 = Inr h4" using h2 h3 h4 by (simp add: numeral_3_eq_3)
  have n4: "EaterAnt_acts 4 a h1 = Inr h5"
    using h2 h3 h4 h5 by (simp add: eval_nat_numeral)
  show "\<exists>h1. EaterAnt_act a h = Inr h1 \<and> turnsEating (antH h1 a) = 1 \<and> holds a b h1
          \<and> bees (placeH h1 (Loc n)) = bs
          \<and> (\<exists>h2. EaterAnt_acts 1 a h1 = Inr h2 \<and> turnsEating (antH h2 a) = 2 \<and> holds a b h2)
          \<and> (\<exists>h3. EaterAnt_acts 2 a h1 = Inr h3 \<and> turnsEating (antH h3 a) = 3 \<and> holds a b h3)
          \<and> (\<exists>h4. EaterAnt_acts 3 a h1 = Inr h4 \<and> turnsEating (antH h4 a) = 4 \<and> holds a b h4)
          \<and> (\<exists>h5. EaterAnt_acts 4 a h1 = Inr h5 \<and> turnsEating (antH h5 a) = 0
                \<and> bees (placeH h5 (Stomach a)) = [] \<and> place (beeH h5 b) = None)"
    using h1 h2 h3 h4 h5 n1 n2 n3 n4 by blast
next
  assume "turnsEating (antH h a) = 1 \<and> place (antH h a) = Some (Loc n)
      \<and> bees (placeH h (Stomach a)) = b # bs \<and> armor (antH h a) - amount > 0"
  then show "\<exists>h'. EaterAnt_reduceArmor a amount h = Inr (False, h')
          \<and> turnsEating (antH h' a) = 3
          \<and> bees (placeH h' (Loc n)) = bees (placeH h (Loc n)) @ [b]
          \<and> place (beeH h' b) = Some (Loc n)
          \<and> bees (placeH h' (Stomach a)) = bs
          \<and> armor (antH h' a) = armor (antH h a) - amount"
    using EaterAnt_reduceArmor_at_one[of h a n b bs amount] by simp
qed

text \<open>
  An Eater (address 0) and a bee (address 7) in the entry cell \<open>Loc 3\<close>: the capture and
  the release four actions later; and, from the state right after the capture, a hit of
  1 on the Eater's armor of 2.
\<close>

theorem C5_eater_cycle_witness:
  "turnsEating (antH (putBee 7 2 1 (Loc 3) (putAnt 0 Eater (Loc 3) lane3_heap)) 0) = 0
   \<and> bees (placeH (putBee 7 2 1 (Loc 3) (putAnt 0 Eater (Loc 3) lane3_heap)) (Loc 3)) = [7]
   \<and> (\<exists>h1. EaterAnt_act 0 (putBee 7 2 1 (Loc 3) (putAnt 0 Eater (Loc 3) lane3_heap)) = Inr h1
         \<and> holds 0 7 h1
         \<and> (\<exists>h4. EaterAnt_acts 3 0 h1 = Inr h4 \<and> holds 0 7 h4)
         \<and> (\<exists>h5. EaterAnt_acts 4 0 h1 = Inr h5 \<and> turnsEating (antH h5 0) = 0
               \<and> bees (placeH h5 (Stomach 0)) = [] \<and> place (beeH h5 7) = None)
         \<and> (\<exists>h'. EaterAnt_reduceArmor 0 1 h1 = Inr (False, h')
               \<and> turnsEating (antH h' 0) = 3 \<and> bees (placeH h' (Loc 3)) = [7]
               \<and> bees (placeH h' (Stomach 0)) = []))"
proof -
  let ?h = "putBee 7 2 1 (Loc 3) (putAnt 0 Eater (Loc 3) lane3_heap)"
  have pre: "turnsEating (antH ?h 0) = 0" "place (antH ?h 0) = Some (Loc 3)"
    "bees (placeH ?h (Loc 3)) = [7]" "bees (placeH ?h (Stomach 0)) = []"
    by (simp_all add: lane3_heap_def putBee_def putAnt_def newPlace_def newAnt_def
        setPlace_ant_def setPlace_bee_def setArmor_def getArmor_def getPlace_def Place_addAnt_def
        Place_removeAnt_def Place_addBee_def Place_removeBee_def Place_removeInsect_def)
  from C5_eater_cycle[of ?h 0 3 7 "[]"] pre
  obtain h1 where h1: "EaterAnt_act 0 ?h = Inr h1" "turnsEating (antH h1 0) = 1" "holds 0 7 h1"
      "bees (placeH h1 (Loc 3)) = []"
      "\<exists>h4. EaterAnt_acts 3 0 h1 = Inr h4 \<and> turnsEating (antH h4 0) = 4 \<and> holds 0 7 h4"
      "\<exists>h5. EaterAnt_acts 4 0 h1 = Inr h5 \<and> turnsEating (antH h5 0) = 0
                \<and> bees (placeH h5 (Stomach 0)) = [] \<and> place (beeH h5 7) = None"
    by blast
  have "EaterAnt_act 0 ?h = Inr h1 \<Longrightarrow> place (antH h1 0) = Some (Loc 3) \<and> armor (antH h1 0) = 2"
    by (auto simp: EaterAnt_act_def Place_getClosestBee_def lane3_heap_def putBee_def putAnt_def
        newPlace_def newAnt_def setPlace_ant_def setPlace_bee_def setArmor_def getArmor_def
        getPlace_def Place_addAnt_def Place_removeAnt_def Place_addBee_def Place_removeBee_def
        Place_removeInsect_def Let_def)
  with h1 have more: "place (antH h1 0) = Some (Loc 3)" "armor (antH h1 0) = 2" by simp_all
  from C5_eater_cycle[of h1 0 3 7 "[]" 1] h1 more
  have "\<exists>h'. EaterAnt_reduceArmor 0 1 h1 = Inr (False, h')
               \<and> turnsEating (antH h' 0) = 3 \<and> bees (placeH h' (Loc 3)) = [7]
               \<and> bees (placeH h' (Stomach 0)) = []"
    by (auto simp: holds_def)
  with pre h1 show ?thesis by blast
qed

text \<open>
  Claim C6 (deploy). \<open>AntColony.deployAnt\<close> on a cell \<open>p\<close> answers \<open>not enough food\<close>
  exactly when the food is below the ant's cost, and then changes nothing; with enough
  food and the ant's slot of the cell taken (the guard slot for a Guard, the base slot
  otherwise) it answers \<open>tunnel already occupied\<close> and changes nothing; with enough food
  and the slot free it succeeds, the food drops by exactly the cost, the ant is in its
  slot with its back-reference set, the other slot and every other cell are as before.
\<close>

theorem C6_deployAnt:
  "(let r = AntColony_deployAnt a (IsPlace p) c h;
        cost = foodCost (antH h a);
        taken = (if kind (antH h a) = Guard then guard (placeH h p) \<noteq> None
                 else ant (placeH h p) \<noteq> None);
        h' = snd (Place_addAnt p a h)
    in ((\<exists>c1 h1. r = Inr (Some ''not enough food'', c1, h1)) \<longleftrightarrow> food c < cost)
     \<and> (food c < cost \<longrightarrow> r = Inr (Some ''not enough food'', c, h))
     \<and> (cost \<le> food c \<and> taken \<longrightarrow> r = Inr (Some ''tunnel already occupied'', c, h))
     \<and> (cost \<le> food c \<and> \<not> taken \<longrightarrow>
          r = Inr (None, c\<lparr>food := food c - cost\<rparr>, h')
          \<and> place (antH h' a) = Some p
          \<and> (if kind (antH h a) = Guard
              then guard (placeH h' p) = Some a \<and> ant (placeH h' p) = ant (placeH h p)
              else ant (placeH h' p) = Some a \<and> guard (placeH h' p) = guard (placeH h p))
          \<and> (\<forall>q. q \<noteq> p \<longrightarrow> placeH h' q = placeH h q)))"
  by (auto simp: AntColony_deployAnt_def Place_addAnt_def setPlace_ant_def Let_def)

text \<open>
  A fresh Thrower (cost 4) with 5 food: deployed at the free entry cell, 1 food is left;
  at the cell that already has a Thrower the call fails; with 3 food it fails for food.
\<close>

theorem C6_deployAnt_witness:
  "AntColony_deployAnt 0 (IsPlace (Loc 3)) (lane3_colony 5) (snd (allocAnt Thrower lane3_heap))
       = Inr (None, (lane3_colony 5)\<lparr>food := 1\<rparr>,
              snd (Place_addAnt (Loc 3) 0 (snd (allocAnt Thrower lane3_heap))))
   \<and> ant (placeH (snd (Place_addAnt (Loc 3) 0 (snd (allocAnt Thrower lane3_heap)))) (Loc 3)) = Some 0
   \<and> AntColony_deployAnt 1 (IsPlace (Loc 3)) (lane3_colony 5)
         (snd (allocAnt Thrower (putAnt 0 Thrower (Loc 3) lane3_heap)))
       = Inr (Some ''tunnel already occupied'', lane3_colony 5,
              snd (allocAnt Thrower (putAnt 0 Thrower (Loc 3) lane3_heap)))
   \<and> AntColony_deployAnt 0 (IsPlace (Loc 3)) (lane3_colony 3) (snd (allocAnt Thrower lane3_heap))
       = Inr (Some ''not enough food'', lane3_colony 3, snd (allocAnt Thrower lane3_heap))"
  using C6_deployAnt[of 0 "Loc 3" "lane3_colony 5" "snd (allocAnt Thrower lane3_heap)"]
        C6_deployAnt[of 1 "Loc 3" "lane3_colony 5" "snd (allocAnt Thrower (putAnt 0 Thrower (Loc 3) lane3_heap))"]
        C6_deployAnt[of 0 "Loc 3" "lane3_colony 3" "snd (allocAnt Thrower lane3_heap)"]
  by (simp add: lane3_heap_def lane3_colony_def putAnt_def newPlace_def newAnt_def
      setPlace_ant_def Place_addAnt_def allocAnt_def Let_def)

text \<open>
  Claim C7 (win condition). \<open>AntGame.gameIsWon\<close> returns \<open>false\<close> whenever the queen's
  place holds an attacker, whatever else holds; \<open>true\<close> whenever no attacker is in the
  queen's place, in any cell of the grid or in the hive; and \<open>undefined\<close> in every other
  state.
\<close>

theorem C7_gameIsWon:
  "(bees (placeH h (queenPlace (colony g))) \<noteq> [] \<longrightarrow> AntGame_gameIsWon g h = Some False)
   \<and> (bees (placeH h (queenPlace (colony g))) = []
        \<and> (\<forall>row \<in> set (places (colony g)). \<forall>p \<in> set row. bees (placeH h p) = [])
        \<and> bees (placeH h (hive g)) = []
      \<longrightarrow> AntGame_gameIsWon g h = Some True)
   \<and> (bees (placeH h (queenPlace (colony g))) = []
        \<and> \<not> ((\<forall>row \<in> set (places (colony g)). \<forall>p \<in> set row. bees (placeH h p) = [])
             \<and> bees (placeH h (hive g)) = [])
      \<longrightarrow> AntGame_gameIsWon g h = None)"
  by (auto simp: AntGame_gameIsWon_def AntColony_queenHasBees_def AntColony_getAllBees_def)

text \<open>
  The empty board is won; a bee at the queen is a loss, also with another bee in the
  tunnel; a bee in the tunnel only, or in the hive only, leaves the game open.
\<close>

theorem C7_gameIsWon_witness:
  "AntGame_gameIsWon (lane3_game 5) lane3_heap = Some True
   \<and> AntGame_gameIsWon (lane3_game 5) (putBee 0 2 1 (Loc 0) lane3_heap) = Some False
   \<and> AntGame_gameIsWon (lane3_game 5) (putBee 0 2 1 (Loc 0) (putBee 1 2 1 (Loc 2) lane3_heap)) = Some False
   \<and> AntGame_gameIsWon (lane3_game 5) (putBee 0 2 1 (Loc 3) lane3_heap) = None
   \<and> AntGame_gameIsWon (lane3_game 5) (putBee 0 2 1 (Loc 4) lane3_heap) = None"
  using C7_gameIsWon[of lane3_heap "lane3_game 5"]
        C7_gameIsWon[of "putBee 0 2 1 (Loc 0) lane3_heap" "lane3_game 5"]
        C7_gameIsWon[of "putBee 0 2 1 (Loc 0) (putBee 1 2 1 (Loc 2) lane3_heap)" "lane3_game 5"]
        C7_gameIsWon[of "putBee 0 2 1 (Loc 3) lane3_heap" "lane3_game 5"]
        C7_gameIsWon[of "putBee 0 2 1 (Loc 4) lane3_heap" "lane3_game 5"]
  by (simp add: lane3_heap_def lane3_colony_def lane3_game_def putBee_def newPlace_def
      newAnt_def setPlace_bee_def Place_addBee_def)

text \<open>
  Claim C8 (a bee's turn), as amended. For a bee \<open>b\<close> in cell \<open>p\<close>: if the cell has an
  occupant (the guard if there is one) and the status is not \<open>cold\<close>, the turn is
  \<open>reduceArmor\<close> of that occupant with the bee's damage; if the cell has an occupant and
  the status is \<open>cold\<close>, nothing happens; if the cell has no occupant, the status is not
  \<open>stuck\<close> and the bee's armor is positive, the bee leaves \<open>p\<close> and is appended to the
  attackers of the exit of \<open>p\<close>; if the cell has no occupant and the status is \<open>stuck\<close>
  or the armor is not positive, nothing happens. Whenever the turn returns, the status is
  cleared.
\<close>

theorem C8_bee_act:
  assumes "place (beeH h b) = Some p"
  shows
   "(\<forall>a. Place_getAnt (placeH h p) = Some a \<and> status (beeH h b) \<noteq> Some ''cold'' \<longrightarrow>
        Bee_act b h = (case reduceArmor (AntI a) (damage (beeH h b)) h of
                         Inl e \<Rightarrow> Inl e
                       | Inr (t, h1) \<Rightarrow> Inr (setStatus b None h1)))
    \<and> (Place_getAnt (placeH h p) \<noteq> None \<and> status (beeH h b) = Some ''cold'' \<longrightarrow>
        Bee_act b h = Inr (setStatus b None h))
    \<and> (\<forall>q. Place_getAnt (placeH h p) = None \<and> status (beeH h b) \<noteq> Some ''stuck''
           \<and> 0 < armor (beeH h b) \<and> exit (placeH h p) = Some q \<and> q \<noteq> p
           \<and> b \<in> set (bees (placeH h p)) \<longrightarrow>
        (\<exists>h'. Bee_act b h = Inr h'
           \<and> bees (placeH h' p) = remove1 b (bees (placeH h p))
           \<and> bees (placeH h' q) = bees (placeH h q) @ [b]
           \<and> place (beeH h' b) = Some q))
    \<and> (Place_getAnt (placeH h p) = None
           \<and> (status (beeH h b) = Some ''stuck'' \<or> armor (beeH h b) \<le> 0) \<longrightarrow>
        Bee_act b h = Inr (setStatus b None h))
    \<and> (\<forall>h'. Bee_act b h = Inr h' \<longrightarrow> status (beeH h' b) = None)"
  using assms
  by (auto simp: Bee_act_def Bee_isBlocked_def Bee_sting_def setPlace_bee_def setStatus_def
      setArmor_def getArmor_def getPlace_def Place_getAnt_def Place_removeAnt_def Place_addBee_def
      Place_removeBee_def Place_exitBee_def Place_removeInsect_def Let_def
      split: option.splits sum.splits)

text \<open>
  A bee with armor 2 and damage 1 in the entry cell: alone it moves one cell towards the
  queen; facing a Thrower (armor 1) it stings, and the Thrower expires and is removed.
\<close>

theorem C8_bee_act_witness:
  "place (beeH (putBee 0 2 1 (Loc 3) lane3_heap) 0) = Some (Loc 3)
   \<and> (\<exists>h'. Bee_act 0 (putBee 0 2 1 (Loc 3) lane3_heap) = Inr h'
         \<and> bees (placeH h' (Loc 3)) = [] \<and> bees (placeH h' (Loc 2)) = [0]
         \<and> place (beeH h' 0) = Some (Loc 2) \<and> status (beeH h' 0) = None)
   \<and> place (beeH (putBee 0 2 1 (Loc 3) (putAnt 0 Thrower (Loc 3) lane3_heap)) 0) = Some (Loc 3)
   \<and> Bee_act 0 (putBee 0 2 1 (Loc 3) (putAnt 0 Thrower (Loc 3) lane3_heap))
       = Inr (setStatus 0 None (snd (Place_removeAnt (Loc 3)
           (setArmor (AntI 0) 0 (putBee 0 2 1 (Loc 3) (putAnt 0 Thrower (Loc 3) lane3_heap))))))"
proof -
  let ?h = "putBee 0 2 1 (Loc 3) lane3_heap"
  let ?k = "putBee 0 2 1 (Loc 3) (putAnt 0 Thrower (Loc 3) lane3_heap)"
  have pre: "place (beeH ?h 0) = Some (Loc 3)" "Place_getAnt (placeH ?h (Loc 3)) = None"
    "status (beeH ?h 0) \<noteq> Some ''stuck''" "0 < armor (beeH ?h 0)"
    "exit (placeH ?h (Loc 3)) = Some (Loc 2)" "0 \<in> set (bees (placeH ?h (Loc 3)))"
    "bees (placeH ?h (Loc 3)) = [0]" "bees (placeH ?h (Loc 2)) = []"
    by (simp_all add: lane3_heap_def putBee_def putAnt_def newPlace_def newAnt_def
        setPlace_ant_def setPlace_bee_def setStatus_def setArmor_def getArmor_def getPlace_def
        Place_getAnt_def Place_addAnt_def Place_removeAnt_def Place_addBee_def Place_removeBee_def
        Place_exitBee_def Place_removeInsect_def)
  from C8_bee_act[OF pre(1)] pre
  have mv: "\<exists>h'. Bee_act 0 ?h = Inr h'
         \<and> bees (placeH h' (Loc 3)) = [] \<and> bees (placeH h' (Loc 2)) = [0]
         \<and> place (beeH h' 0) = Some (Loc 2) \<and> status (beeH h' 0) = None"
    by (auto simp: place_ref.inject)
  have pre2: "place (beeH ?k 0) = Some (Loc 3)" "Place_getAnt (placeH ?k (Loc 3)) = Some 0"
    "status (beeH ?k 0) \<noteq> Some ''cold''" "damage (beeH ?k 0) = 1"
    by (simp_all add: lane3_heap_def putBee_def putAnt_def newPlace_def newAnt_def
        setPlace_ant_def setPlace_bee_def setStatus_def setArmor_def getArmor_def getPlace_def
        Place_getAnt_def Place_addAnt_def Place_removeAnt_def Place_addBee_def Place_removeBee_def
        Place_exitBee_def Place_removeInsect_def)
  have ra: "reduceArmor (AntI 0) 1 ?k
       = Inr (True, snd (Place_removeAnt (Loc 3) (setArmor (AntI 0) 0 ?k)))"
    by (simp add: reduceArmor_def Insect_reduceArmor_def lane3_heap_def putBee_def putAnt_def
        newPlace_def newAnt_def setPlace_ant_def setPlace_bee_def setStatus_def setArmor_def
        getArmor_def getPlace_def Place_getAnt_def Place_addAnt_def Place_removeAnt_def
        Place_addBee_def Place_removeBee_def Place_exitBee_def Place_removeInsect_def)
  from C8_bee_act[OF pre2(1)] pre2 ra
  have "Bee_act 0 ?k
       = Inr (setStatus 0 None (snd (Place_removeAnt (Loc 3) (setArmor (AntI 0) 0 ?k))))"
    by simp
  with mv pre(1) pre2(1) show ?thesis by blast
qed

text \<open>
  The claim as it is written lets every unblocked attacker that is not immobilized move.
  The source moves it only \<open>if (this.armor > 0)\<close>: a bee with armor 0 (a hive built with
  that armor), unblocked and with no status, stays where it is.
\<close>

theorem C8_no_armor_no_move_counterexample:
  "place (beeH (putBee 0 0 1 (Loc 3) lane3_heap) 0) = Some (Loc 3)
   \<and> Place_getAnt (placeH (putBee 0 0 1 (Loc 3) lane3_heap) (Loc 3)) = None
   \<and> status (beeH (putBee 0 0 1 (Loc 3) lane3_heap) 0) = None
   \<and> exit (placeH (putBee 0 0 1 (Loc 3) lane3_heap) (Loc 3)) = Some (Loc 2)
   \<and> Bee_act 0 (putBee 0 0 1 (Loc 3) lane3_heap) = Inr (setStatus 0 None (putBee 0 0 1 (Loc 3) lane3_heap))
   \<and> bees (placeH (setStatus 0 None (putBee 0 0 1 (Loc 3) lane3_heap)) (Loc 3)) = [0]
   \<and> bees (placeH (setStatus 0 None (putBee 0 0 1 (Loc 3) lane3_heap)) (Loc 2)) = []"
  by (simp add: Bee_act_def Bee_isBlocked_def lane3_heap_def putBee_def newPlace_def newAnt_def
      setPlace_bee_def setStatus_def setArmor_def getArmor_def getPlace_def Place_getAnt_def
      Place_removeAnt_def Place_addBee_def Place_removeBee_def Place_exitBee_def
      Place_removeInsect_def)

text \<open>
  Claim C9 (damage after detachment), as amended. For an insect whose back-reference
  \<open>place\<close> is cleared and whose armor is already 0 or less, \<open>reduceArmor\<close> with a
  non-negative amount does not return: after the decrement it goes on to detach the
  insect again through the cleared back-reference, and that call throws.
\<close>

theorem C9_detached_reduceArmor_throws:
  assumes "getPlace i h = None" and "getArmor i h \<le> 0" and "0 \<le> amount"
  shows "reduceArmor i amount h = Inl TypeError"
  using assms
  by (cases i)
     (auto simp: reduceArmor_def EaterAnt_reduceArmor_def Insect_reduceArmor_def coughUp_def
        setPlace_bee_def setArmor_def getArmor_def getPlace_def Place_removeAnt_def
            Place_addBee_def Place_removeBee_def Place_removeInsect_def Let_def split: list.splits)

text \<open>An Eater that was never placed, its armor set to 0.\<close>

theorem C9_detached_reduceArmor_witness:
  "getPlace (AntI 0) (setArmor (AntI 0) 0 (snd (allocAnt Eater lane3_heap))) = None
   \<and> getArmor (AntI 0) (setArmor (AntI 0) 0 (snd (allocAnt Eater lane3_heap))) \<le> 0
   \<and> reduceArmor (AntI 0) 1 (setArmor (AntI 0) 0 (snd (allocAnt Eater lane3_heap))) = Inl TypeError"
proof -
  let ?h = "setArmor (AntI 0) 0 (snd (allocAnt Eater lane3_heap))"
  have pre: "getPlace (AntI 0) ?h = None" "getArmor (AntI 0) ?h \<le> 0"
    by (simp_all add: lane3_heap_def newPlace_def newAnt_def setPlace_bee_def setArmor_def
        getArmor_def getPlace_def Place_removeAnt_def Place_addBee_def Place_removeBee_def
        Place_removeInsect_def allocAnt_def Let_def)
  from C9_detached_reduceArmor_throws[OF pre, of 1] pre show ?thesis by simp
qed

text \<open>
  The claim as it is written fails for a bee: a bee with armor 1 in the entry cell is hit
  for 1, expires and is detached (armor 0, back-reference cleared); the next hit throws
  instead of returning.
\<close>

theorem C9_second_hit_counterexample:
  "reduceArmor (BeeI 0) 1 (putBee 0 1 1 (Loc 3) lane3_heap)
     = Inr (True, Place_removeBee (Loc 3) 0 (setArmor (BeeI 0) 0 (putBee 0 1 1 (Loc 3) lane3_heap)))
   \<and> getPlace (BeeI 0) (Place_removeBee (Loc 3) 0 (setArmor (BeeI 0) 0 (putBee 0 1 1 (Loc 3) lane3_heap))) = None
   \<and> getArmor (BeeI 0) (Place_removeBee (Loc 3) 0 (setArmor (BeeI 0) 0 (putBee 0 1 1 (Loc 3) lane3_heap))) = 0
   \<and> reduceArmor (BeeI 0) 1 (Place_removeBee (Loc 3) 0 (setArmor (BeeI 0) 0 (putBee 0 1 1 (Loc 3) lane3_heap)))
     = Inl TypeError"
  by (simp add: reduceArmor_def Insect_reduceArmor_def lane3_heap_def putBee_def newPlace_def
      newAnt_def setPlace_bee_def setArmor_def getArmor_def getPlace_def Place_removeAnt_def
      Place_addBee_def Place_removeBee_def Place_removeInsect_def)

text \<open>
  Claim C10 (double subtraction). For an Eater in a cell \<open>p\<close>, a lethal \<open>reduceArmor\<close>
  (armor minus amount is 0 or less) returns \<open>true\<close>; afterwards the armor is the armor
  before minus twice the amount, and exactly one \<open>removeAnt\<close> has run on the cell: the
  guard slot is emptied if it was occupied, else the base slot. The amount is a damage,
  0 or more, or else the Eater's armor was still positive before the call. (While the
  counter is 1 or 2 the stomach is not empty: it holds the captured bee.)
\<close>

theorem C10_eater_lethal_subtracts_twice:
  assumes "armor (antH h a) - amount \<le> 0"
    and "0 \<le> amount \<or> 0 < armor (antH h a)"
    and "place (antH h a) = Some p"
    and "turnsEating (antH h a) = 1 \<or> turnsEating (antH h a) = 2
           \<Longrightarrow> bees (placeH h (Stomach a)) \<noteq> []"
  shows "\<exists>h'. EaterAnt_reduceArmor a amount h = Inr (True, h')
      \<and> armor (antH h' a) = armor (antH h a) - 2 * amount
      \<and> (if guard (placeH h p) \<noteq> None
         then guard (placeH h' p) = None \<and> ant (placeH h' p) = ant (placeH h p)
         else guard (placeH h' p) = None \<and> ant (placeH h' p) = None)"
proof (cases "turnsEating (antH h a) = 1 \<or> turnsEating (antH h a) = 2")
  case True
  then obtain b bs where "bees (placeH h (Stomach a)) = b # bs"
    using assms(4) by (cases "bees (placeH h (Stomach a))") auto
  then show ?thesis
    using assms(1-3) True
    by (auto simp: EaterAnt_reduceArmor_def Insect_reduceArmor_def coughUp_def setPlace_bee_def
        setArmor_def getArmor_def getPlace_def Place_removeAnt_def Place_addBee_def
        Place_removeBee_def Place_removeInsect_def Let_def)
next
  case False
  then show ?thesis
    using assms(1-3)
    by (auto simp: EaterAnt_reduceArmor_def Insect_reduceArmor_def coughUp_def setPlace_bee_def
        setArmor_def getArmor_def getPlace_def Place_removeAnt_def Place_addBee_def
        Place_removeBee_def Place_removeInsect_def Let_def)
qed

text \<open>An Eater (armor 2) alone in the entry cell, hit for 2: armor \<open>-2\<close>, cell empty.\<close>

theorem C10_eater_lethal_witness:
  "armor (antH (putAnt 0 Eater (Loc 3) lane3_heap) 0) - 2 \<le> 0
   \<and> place (antH (putAnt 0 Eater (Loc 3) lane3_heap) 0) = Some (Loc 3)
   \<and> turnsEating (antH (putAnt 0 Eater (Loc 3) lane3_heap) 0) = 0
   \<and> (\<exists>h'. EaterAnt_reduceArmor 0 2 (putAnt 0 Eater (Loc 3) lane3_heap) = Inr (True, h')
         \<and> armor (antH h' 0) = - 2
         \<and> guard (placeH h' (Loc 3)) = None \<and> ant (placeH h' (Loc 3)) = None)"
proof -
  let ?h = "putAnt 0 Eater (Loc 3) lane3_heap"
  have pre: "armor (antH ?h 0) - 2 \<le> 0" "place (antH ?h 0) = Some (Loc 3)"
    "turnsEating (antH ?h 0) = 0" "armor (antH ?h 0) = 2" "guard (placeH ?h (Loc 3)) = None"
    by (simp_all add: lane3_heap_def putAnt_def newPlace_def newAnt_def setPlace_ant_def
        setPlace_bee_def setArmor_def getArmor_def getPlace_def Place_addAnt_def Place_removeAnt_def
        Place_addBee_def Place_removeBee_def Place_removeInsect_def)
  from C10_eater_lethal_subtracts_twice[of ?h 0 2 "Loc 3"] pre
  have "\<exists>h'. EaterAnt_reduceArmor 0 2 ?h = Inr (True, h')
         \<and> armor (antH h' 0) = - 2
         \<and> guard (placeH h' (Loc 3)) = None \<and> ant (placeH h' (Loc 3)) = None"
    by auto
  with pre show ?thesis by blast
qed

end
